theory Spec2Isabelle
  imports Complex_Main
begin

section \<open>The study planner: data model\<close>

text \<open>
  The schedule generator of \<^verbatim>\<open>ai_study_planner.py\<close> and the favourites list.

  Conventions of the embedding:
  \<^item> a calendar date is its day number, an \<open>int\<close>; adding a \<^verbatim>\<open>timedelta(days=k)\<close> is
    adding \<open>k\<close>. The upper end of \<^verbatim>\<open>datetime.date\<close> (year 9999) is not modelled.
  \<^item> \<^verbatim>\<open>datetime.date.today()\<close> is the parameter \<open>today\<close>; the source reads it twice
    (lines 36 and 46) and both reads are taken to give the same date.
  \<^item> hours are exact rationals. The source computes them in binary floating point; the
    model is the exact arithmetic that the floating point approximates.
  The two idealisations, of dates and of hours, are lifted in the section on the lines as
  CPython runs them, which has the date range and the rounding of every operation.
  \<^item> a Python \<^verbatim>\<open>dict\<close> whose order matters or whose values are summed is the association
    list of its items in insertion order; \<^verbatim>\<open>hours_per_subject\<close>, only looked up and
    updated, is a map.
  \<^item> an exception is a value \<open>Inl e\<close> of the result type.
\<close>

datatype error = KeyError string | ZeroDivisionError | OverflowError

type_synonym task = "string \<times> rat"
type_synonym schedule = "(int \<times> task list) list"

subsection \<open>Python primitives\<close>

text \<open>True division \<^verbatim>\<open>a / b\<close> of two integers: raises on a zero divisor.\<close>

definition py_truediv :: "int \<Rightarrow> int \<Rightarrow> error + rat" where
  "py_truediv a b = (if b = 0 then Inl ZeroDivisionError else Inr (of_int a / of_int b))"

text \<open>
  \<^verbatim>\<open>round(x, 1)\<close>: the closest multiple of one tenth, a tie going to the even multiple.
\<close>

definition py_round1 :: "rat \<Rightarrow> rat" where
  "py_round1 x =
     (let y = x * 10; f = \<lfloor>y\<rfloor>; r = y - of_int f
      in of_int (if r < 1 / 2 then f
                 else if 1 / 2 < r then f + 1
                 else if even f then f else f + 1) / 10)"

text \<open>\<^verbatim>\<open>d[k] = v\<close> on an insertion-ordered dictionary.\<close>

fun dict_set :: "('k \<times> 'v) list \<Rightarrow> 'k \<Rightarrow> 'v \<Rightarrow> ('k \<times> 'v) list" where
  "dict_set [] k v = [(k, v)]"
| "dict_set ((k', v') # d) k v =
     (if k' = k then (k', v) # d else (k', v') # dict_set d k v)"

text \<open>
  \<^verbatim>\<open>d[k].append(x)\<close> on a \<^verbatim>\<open>defaultdict(list)\<close>: a missing key is created with the empty
  list first.
\<close>

fun dict_append :: "('k \<times> 'v list) list \<Rightarrow> 'k \<Rightarrow> 'v \<Rightarrow> ('k \<times> 'v list) list" where
  "dict_append [] k x = [(k, [x])]"
| "dict_append ((k', xs) # d) k x =
     (if k' = k then (k', xs @ [x]) # d else (k', xs) # dict_append d k x)"

section \<open>generate_schedule\<close>

text \<open>
  Lines 41-44, the dictionary comprehension
  \<^verbatim>\<open>{subject: round((difficulty[subject] / total_weight) * total_available_hours, 1)
     for subject in subjects}\<close>
  with the dictionary built so far as accumulator.
\<close>

fun hours_per_subject ::
  "string list \<Rightarrow> (string \<times> int) list \<Rightarrow> int \<Rightarrow> rat \<Rightarrow> (string \<rightharpoonup> rat)
     \<Rightarrow> error + (string \<rightharpoonup> rat)" where
  "hours_per_subject [] difficulty total_weight total_available_hours acc = Inr acc"
| "hours_per_subject (subject # rest) difficulty total_weight total_available_hours acc =
     (case map_of difficulty subject of
        None \<Rightarrow> Inl (KeyError subject)
      | Some d \<Rightarrow>
          (case py_truediv d total_weight of
             Inl e \<Rightarrow> Inl e
           | Inr q \<Rightarrow>
               hours_per_subject rest difficulty total_weight total_available_hours
                 (acc(subject \<mapsto> py_round1 (q * total_available_hours)))))"

text \<open>
  Lines 51-57, the loop over the subjects of one day. The state is the owed hours, the
  hours left today and the plan of the day so far.
\<close>

fun allocate_day ::
  "string list \<Rightarrow> (string \<rightharpoonup> rat) \<Rightarrow> rat \<Rightarrow> task list
     \<Rightarrow> error + ((string \<rightharpoonup> rat) \<times> rat \<times> task list)" where
  "allocate_day [] hps daily_hours today_plan = Inr (hps, daily_hours, today_plan)"
| "allocate_day (subject # rest) hps daily_hours today_plan =
     (case hps subject of
        None \<Rightarrow> Inl (KeyError subject)
      | Some owed \<Rightarrow>
          if 0 < owed then
            (let allocated = min 1 (min owed daily_hours)
             in if 0 < allocated
                then allocate_day rest (hps(subject \<mapsto> owed - allocated))
                       (daily_hours - allocated) (today_plan @ [(subject, allocated)])
                else allocate_day rest hps daily_hours today_plan)
          else allocate_day rest hps daily_hours today_plan)"

text \<open>Line 63, one review entry: \<^verbatim>\<open>(f"Review {subject}", round(hours / 2, 1))\<close>.\<close>

definition review_task :: "task \<Rightarrow> task" where
  "review_task t = (''Review '' @ fst t, py_round1 (snd t / 2))"

text \<open>Lines 62-63, the loop that appends the reviews of a day's plan.\<close>

definition add_reviews :: "schedule \<Rightarrow> int \<Rightarrow> task list \<Rightarrow> schedule" where
  "add_reviews schedule review_day today_plan =
     fold (\<lambda>t s. dict_append s review_day (review_task t)) today_plan schedule"

text \<open>Lines 58-63, what one day does to the schedule once its plan is known.\<close>

definition record_day :: "schedule \<Rightarrow> int \<Rightarrow> int \<Rightarrow> task list \<Rightarrow> schedule" where
  "record_day schedule current_day day today_plan =
     add_reviews
       (if today_plan \<noteq> [] then dict_set schedule (current_day + day) today_plan
        else schedule)
       (current_day + (day + 2)) today_plan"

text \<open>Lines 48-64, the loop over the days.\<close>

function days_loop ::
  "string list \<Rightarrow> rat \<Rightarrow> int \<Rightarrow> int \<Rightarrow> int \<Rightarrow> (string \<rightharpoonup> rat) \<Rightarrow> schedule
     \<Rightarrow> error + schedule" where
  "days_loop subjects available_hours current_day total_days day hps schedule =
     (if day < total_days then
        (case allocate_day subjects hps available_hours [] of
           Inl e \<Rightarrow> Inl e
         | Inr (hps', daily_hours, today_plan) \<Rightarrow>
             days_loop subjects available_hours current_day total_days (day + 1) hps'
               (record_day schedule current_day day today_plan))
      else Inr schedule)"
  by pat_completeness auto
termination
  by (relation "measure (\<lambda>(subjects, available_hours, current_day, total_days, day, hps, schedule).
                   nat (total_days - day))") auto

declare days_loop.simps [simp del]

definition generate_schedule ::
  "int \<Rightarrow> string list \<Rightarrow> (string \<times> int) list \<Rightarrow> rat \<Rightarrow> int \<Rightarrow> error + schedule" where
  "generate_schedule today subjects difficulty available_hours exam_date =
     (let total_days = exam_date - today;
          total_available_hours = of_int total_days * available_hours;
          total_weight = sum_list (map snd difficulty);
          total_weight = (if total_weight = 0 then 1 else total_weight)
      in case hours_per_subject subjects difficulty total_weight total_available_hours Map.empty of
           Inl e \<Rightarrow> Inl e
         | Inr hps \<Rightarrow> days_loop subjects available_hours today total_days 0 hps [])"

text \<open>
  The plans of the days, in order: the successive values of \<^verbatim>\<open>today_plan\<close> in the loop
  of lines 48-64, with the schedule left out.
\<close>

function day_plans ::
  "string list \<Rightarrow> rat \<Rightarrow> int \<Rightarrow> int \<Rightarrow> (string \<rightharpoonup> rat) \<Rightarrow> error + task list list" where
  "day_plans subjects available_hours total_days day hps =
     (if day < total_days then
        (case allocate_day subjects hps available_hours [] of
           Inl e \<Rightarrow> Inl e
         | Inr (hps', daily_hours, today_plan) \<Rightarrow>
             (case day_plans subjects available_hours total_days (day + 1) hps' of
                Inl e \<Rightarrow> Inl e
              | Inr plans \<Rightarrow> Inr (today_plan # plans)))
      else Inr [])"
  by pat_completeness auto
termination
  by (relation "measure (\<lambda>(subjects, available_hours, total_days, day, hps).
                   nat (total_days - day))") auto

declare day_plans.simps [simp del]

definition study_plans ::
  "int \<Rightarrow> string list \<Rightarrow> (string \<times> int) list \<Rightarrow> rat \<Rightarrow> int \<Rightarrow> error + task list list" where
  "study_plans today subjects difficulty available_hours exam_date =
     (let total_days = exam_date - today;
          total_available_hours = of_int total_days * available_hours;
          total_weight = sum_list (map snd difficulty);
          total_weight = (if total_weight = 0 then 1 else total_weight)
      in case hours_per_subject subjects difficulty total_weight total_available_hours Map.empty of
           Inl e \<Rightarrow> Inl e
         | Inr hps \<Rightarrow> day_plans subjects available_hours total_days 0 hps)"

text \<open>
  The mapping that a run of the days' loop leaves, read off lines 58-63: starting on date
  \<open>d\<close>, a non-empty plan is stored under its own date and its reviews two dates later;
  an empty plan changes nothing. It is related to the loop by \<open>days_loop_map\<close> below.
\<close>

fun apply_plans :: "int \<Rightarrow> task list list \<Rightarrow> (int \<rightharpoonup> task list) \<Rightarrow> (int \<rightharpoonup> task list)" where
  "apply_plans d [] m = m"
| "apply_plans d (p # ps) m =
     apply_plans (d + 1) ps
       (if p = [] then m else m(d \<mapsto> p, d + 2 \<mapsto> map review_task p))"


definition total_hours :: "task list \<Rightarrow> rat" where
  "total_hours tasks = sum_list (map snd tasks)"

section \<open>The same lines as CPython runs them\<close>

text \<open>
  The definitions above take hours as exact rationals and dates as unbounded day numbers.
  This section repeats lines 35-65 with the two things that idealisation leaves out:
  \<^item> a \<^verbatim>\<open>float\<close> is an IEEE binary64 value, kept as the rational it denotes; every
    arithmetic result is rounded to the nearest binary64 value, ties to the even
    mantissa (the normal range only: no infinities and no subnormal numbers);
  \<^item> a \<^verbatim>\<open>datetime.date\<close> is its proleptic Gregorian ordinal, from 1 (0001-01-01) to
    3652059 (9999-12-31), and adding a \<^verbatim>\<open>timedelta\<close> that leaves this range raises
    \<^verbatim>\<open>OverflowError\<close>.
  \<^verbatim>\<open>available_hours\<close> is the \<^verbatim>\<open>int\<close> that the slider of line 20 delivers.
\<close>

subsection \<open>binary64\<close>

text \<open>The nearest integer, a tie going to the even one.\<close>

definition round_half_even :: "rat \<Rightarrow> int" where
  "round_half_even y =
     (let f = \<lfloor>y\<rfloor>; r = y - of_int f
      in if r < 1 / 2 then f
         else if 1 / 2 < r then f + 1
         else if even f then f else f + 1)"

text \<open>
  Rounding of a positive number to 53 significant bits: scale it by powers of two into
  \<open>[2^52, 2^53)\<close>, round to the nearest integer, scale back.
\<close>

function binary64_pos :: "rat \<Rightarrow> rat" where
  "binary64_pos x =
     (if x \<le> 0 then 0
      else if 2 ^ 53 \<le> x then 2 * binary64_pos (x / 2)
      else if x < 2 ^ 52 then binary64_pos (2 * x) / 2
      else of_int (round_half_even x))"
  by pat_completeness auto
termination
proof (relation "measure (\<lambda>x. if 2 ^ 53 \<le> x then nat \<lfloor>x\<rfloor> + 2 else nat \<lceil>2 ^ 53 / x\<rceil>)")
  show "wf (measure (\<lambda>x::rat. if 2 ^ 53 \<le> x then nat \<lfloor>x\<rfloor> + 2 else nat \<lceil>2 ^ 53 / x\<rceil>))"
    by simp
next
  fix x :: rat
  assume a: "\<not> x \<le> 0" "2 ^ 53 \<le> x"
  show "(x / 2, x) \<in> measure (\<lambda>x. if 2 ^ 53 \<le> x then nat \<lfloor>x\<rfloor> + 2 else nat \<lceil>2 ^ 53 / x\<rceil>)"
  proof (cases "(2::rat) ^ 53 \<le> x / 2")
    case True
    have "x / 2 + 1 \<le> x" using a(2) by simp
    then have "\<lfloor>x / 2 + 1\<rfloor> \<le> \<lfloor>x\<rfloor>" by (rule floor_mono)
    then have "\<lfloor>x / 2\<rfloor> < \<lfloor>x\<rfloor>" by simp
    moreover have "0 \<le> \<lfloor>x / 2\<rfloor>" using a by simp
    ultimately have "nat \<lfloor>x / 2\<rfloor> + 2 < nat \<lfloor>x\<rfloor> + 2" by linarith
    then show ?thesis
      unfolding in_measure using True a(2) by (simp only: if_True)
  next
    case False
    have "2 ^ 53 / (x / 2) \<le> 2" using a by (simp add: field_simps)
    then have "\<lceil>2 ^ 53 / (x / 2)\<rceil> \<le> 2" by (simp add: ceiling_le_iff)
    moreover have "1 \<le> \<lfloor>x\<rfloor>" using a(2) by (simp add: le_floor_iff)
    ultimately have "nat \<lceil>2 ^ 53 / (x / 2)\<rceil> < nat \<lfloor>x\<rfloor> + 2" by linarith
    then show ?thesis
      unfolding in_measure using False a(2) by (simp only: if_True if_False)
  qed
next
  fix x :: rat
  assume a: "\<not> x \<le> 0" "\<not> 2 ^ 53 \<le> x" "x < 2 ^ 52"
  have n: "\<not> 2 ^ 53 \<le> 2 * x" using a(3) by simp
  have "2 ^ 53 / (2 * x) + 1 \<le> 2 ^ 53 / x"
  proof -
    have "2 ^ 53 / (2 * x) \<ge> 1" using a by (simp add: field_simps)
    moreover have "2 ^ 53 / x = 2 * (2 ^ 53 / (2 * x))" using a by simp
    ultimately show ?thesis by linarith
  qed
  then have "\<lceil>2 ^ 53 / (2 * x) + 1\<rceil> \<le> \<lceil>2 ^ 53 / x\<rceil>" by (rule ceiling_mono)
  then have "\<lceil>2 ^ 53 / (2 * x)\<rceil> < \<lceil>2 ^ 53 / x\<rceil>" by simp
  moreover have "0 < 2 ^ 53 / (2 * x)" using a by simp
  then have "0 < \<lceil>2 ^ 53 / (2 * x)\<rceil>" by (simp add: ceiling_less_iff)
  ultimately have "nat \<lceil>2 ^ 53 / (2 * x)\<rceil> < nat \<lceil>2 ^ 53 / x\<rceil>" by linarith
  then show "(2 * x, x) \<in> measure (\<lambda>x. if 2 ^ 53 \<le> x then nat \<lfloor>x\<rfloor> + 2 else nat \<lceil>2 ^ 53 / x\<rceil>)"
    unfolding in_measure using n a(2) by (simp only: if_False)
qed

declare binary64_pos.simps [simp del]

definition binary64 :: "rat \<Rightarrow> rat" where
  "binary64 x = (if x < 0 then - binary64_pos (- x) else binary64_pos x)"

subsection \<open>Python primitives on floats and dates\<close>

text \<open>\<^verbatim>\<open>a / b\<close> of two integers: the correctly rounded quotient.\<close>

definition py_truediv_f :: "int \<Rightarrow> int \<Rightarrow> error + rat" where
  "py_truediv_f a b =
     (if b = 0 then Inl ZeroDivisionError else Inr (binary64 (of_int a / of_int b)))"

text \<open>
  \<^verbatim>\<open>round(x, 1)\<close> of a float: the exact value of \<open>x\<close> is rounded to one decimal, half to
  even, and the decimal result is converted to the nearest float.
\<close>

definition py_round1_f :: "rat \<Rightarrow> rat" where
  "py_round1_f x = binary64 (py_round1 x)"

definition date_max :: int where
  "date_max = 3652059"

text \<open>\<^verbatim>\<open>d + datetime.timedelta(days=n)\<close>.\<close>

definition py_date_add :: "int \<Rightarrow> int \<Rightarrow> error + int" where
  "py_date_add d n =
     (if \<bar>n\<bar> \<le> 999999999 \<and> 1 \<le> d + n \<and> d + n \<le> date_max then Inr (d + n)
      else Inl OverflowError)"

subsection \<open>generate_schedule on floats and dates\<close>

text \<open>
  Lines 41-44. \<^verbatim>\<open>total_available_hours\<close> is an \<^verbatim>\<open>int\<close>; the product converts it to a
  float first.
\<close>

fun hours_per_subject_f ::
  "string list \<Rightarrow> (string \<times> int) list \<Rightarrow> int \<Rightarrow> int \<Rightarrow> (string \<rightharpoonup> rat)
     \<Rightarrow> error + (string \<rightharpoonup> rat)" where
  "hours_per_subject_f [] difficulty total_weight total_available_hours acc = Inr acc"
| "hours_per_subject_f (subject # rest) difficulty total_weight total_available_hours acc =
     (case map_of difficulty subject of
        None \<Rightarrow> Inl (KeyError subject)
      | Some d \<Rightarrow>
          (case py_truediv_f d total_weight of
             Inl e \<Rightarrow> Inl e
           | Inr q \<Rightarrow>
               hours_per_subject_f rest difficulty total_weight total_available_hours
                 (acc(subject \<mapsto>
                    py_round1_f (binary64 (q * binary64 (of_int total_available_hours)))))))"

text \<open>Lines 51-57: both subtractions round.\<close>

fun allocate_day_f ::
  "string list \<Rightarrow> (string \<rightharpoonup> rat) \<Rightarrow> rat \<Rightarrow> task list
     \<Rightarrow> error + ((string \<rightharpoonup> rat) \<times> rat \<times> task list)" where
  "allocate_day_f [] hps daily_hours today_plan = Inr (hps, daily_hours, today_plan)"
| "allocate_day_f (subject # rest) hps daily_hours today_plan =
     (case hps subject of
        None \<Rightarrow> Inl (KeyError subject)
      | Some owed \<Rightarrow>
          if 0 < owed then
            (let allocated = min 1 (min owed daily_hours)
             in if 0 < allocated
                then allocate_day_f rest (hps(subject \<mapsto> binary64 (owed - allocated)))
                       (binary64 (daily_hours - allocated)) (today_plan @ [(subject, allocated)])
                else allocate_day_f rest hps daily_hours today_plan)
          else allocate_day_f rest hps daily_hours today_plan)"

text \<open>Line 63.\<close>

definition review_task_f :: "task \<Rightarrow> task" where
  "review_task_f t = (''Review '' @ fst t, py_round1_f (binary64 (snd t / 2)))"

definition add_reviews_f :: "schedule \<Rightarrow> int \<Rightarrow> task list \<Rightarrow> schedule" where
  "add_reviews_f schedule review_day today_plan =
     fold (\<lambda>t s. dict_append s review_day (review_task_f t)) today_plan schedule"

text \<open>
  Lines 58-63. The date of line 59 is computed only for a non-empty plan, the review date
  of line 61 on every day.
\<close>

definition record_day_f :: "schedule \<Rightarrow> int \<Rightarrow> int \<Rightarrow> task list \<Rightarrow> error + schedule" where
  "record_day_f schedule current_day day today_plan =
     (case (if today_plan \<noteq> []
            then (case py_date_add current_day day of
                    Inl e \<Rightarrow> Inl e
                  | Inr date \<Rightarrow> Inr (dict_set schedule date today_plan))
            else Inr schedule) of
        Inl e \<Rightarrow> Inl e
      | Inr schedule' \<Rightarrow>
          (case py_date_add current_day (day + 2) of
             Inl e \<Rightarrow> Inl e
           | Inr review_day \<Rightarrow> Inr (add_reviews_f schedule' review_day today_plan)))"

text \<open>Lines 48-64.\<close>

function days_loop_f ::
  "string list \<Rightarrow> int \<Rightarrow> int \<Rightarrow> int \<Rightarrow> int \<Rightarrow> (string \<rightharpoonup> rat) \<Rightarrow> schedule
     \<Rightarrow> error + schedule" where
  "days_loop_f subjects available_hours current_day total_days day hps schedule =
     (if day < total_days then
        (case allocate_day_f subjects hps (of_int available_hours) [] of
           Inl e \<Rightarrow> Inl e
         | Inr (hps', daily_hours, today_plan) \<Rightarrow>
             (case record_day_f schedule current_day day today_plan of
                Inl e \<Rightarrow> Inl e
              | Inr schedule' \<Rightarrow>
                  days_loop_f subjects available_hours current_day total_days (day + 1) hps'
                    schedule'))
      else Inr schedule)"
  by pat_completeness auto
termination
  by (relation "measure (\<lambda>(subjects, available_hours, current_day, total_days, day, hps, schedule).
                   nat (total_days - day))") auto

declare days_loop_f.simps [simp del]

definition generate_schedule_f ::
  "int \<Rightarrow> string list \<Rightarrow> (string \<times> int) list \<Rightarrow> int \<Rightarrow> int \<Rightarrow> error + schedule" where
  "generate_schedule_f today subjects difficulty available_hours exam_date =
     (let total_days = exam_date - today;
          total_available_hours = total_days * available_hours;
          total_weight = sum_list (map snd difficulty);
          total_weight = (if total_weight = 0 then 1 else total_weight)
      in case hours_per_subject_f subjects difficulty total_weight total_available_hours
                Map.empty of
           Inl e \<Rightarrow> Inl e
         | Inr hps \<Rightarrow> days_loop_f subjects available_hours today total_days 0 hps [])"




section \<open>Favourites\<close>

record resource =
  rtype :: string
  subject :: string
  title :: string
  link :: string

text \<open>
  Lines 140-143. The session's list is passed in and returned; the message shown by
  \<^verbatim>\<open>st.success\<close> does not touch it.
\<close>

definition save_favorite :: "resource list \<Rightarrow> resource \<Rightarrow> resource list" where
  "save_favorite favorites r = (if r \<notin> set favorites then favorites @ [r] else favorites)"

section \<open>The schedule as a mapping\<close>

subsection \<open>Dictionary operations\<close>

lemma map_of_dict_set: "map_of (dict_set d k v) = (map_of d)(k \<mapsto> v)"
  by (induction d k v rule: dict_set.induct) (auto simp: fun_eq_iff)

lemma map_of_dict_append:
  "map_of (dict_append d k x) =
     (map_of d)(k \<mapsto> (case map_of d k of None \<Rightarrow> [] | Some xs \<Rightarrow> xs) @ [x])"
  by (induction d k x rule: dict_append.induct) (auto simp: fun_eq_iff)

lemma map_of_add_reviews:
  "map_of (add_reviews schedule review_day today_plan) =
     (if today_plan = [] then map_of schedule
      else (map_of schedule)(review_day \<mapsto>
             (case map_of schedule review_day of None \<Rightarrow> [] | Some xs \<Rightarrow> xs)
               @ map review_task today_plan))"
  unfolding add_reviews_def
proof (induction today_plan arbitrary: schedule)
  case Nil
  show ?case by simp
next
  case (Cons t ts)
  show ?case
    by (cases "ts = []") (simp_all add: Cons.IH map_of_dict_append)
qed

lemma map_of_record_day:
  assumes "\<forall>k\<in>dom (map_of schedule). k \<le> current_day + day + 1"
  shows "map_of (record_day schedule current_day day today_plan) =
           (if today_plan = [] then map_of schedule
            else (map_of schedule)(current_day + day \<mapsto> today_plan,
                    current_day + day + 2 \<mapsto> map review_task today_plan))"
proof (cases "today_plan = []")
  case True
  then show ?thesis by (simp add: record_day_def map_of_add_reviews)
next
  case False
  have "map_of schedule (current_day + day + 2) = None"
    using assms by (force simp: dom_def)
  then show ?thesis using False
    by (simp add: record_day_def map_of_add_reviews map_of_dict_set add.assoc)
qed

lemma dom_record_day:
  assumes "\<forall>k\<in>dom (map_of schedule). k \<le> current_day + day + 1"
  shows "\<forall>k\<in>dom (map_of (record_day schedule current_day day today_plan)).
           k \<le> current_day + (day + 1) + 1"
proof
  fix k
  assume "k \<in> dom (map_of (record_day schedule current_day day today_plan))"
  then have "k \<in> dom (map_of schedule) \<or> k = current_day + day \<or> k = current_day + day + 2"
    by (auto simp: map_of_record_day [OF assms] split: if_splits)
  then show "k \<le> current_day + (day + 1) + 1"
    using assms by force
qed

lemma days_loop_map:
  assumes "days_loop subjects available_hours current_day total_days day hps schedule = Inr r"
    and "\<forall>k\<in>dom (map_of schedule). k \<le> current_day + day + 1"
  shows "\<exists>plans. day_plans subjects available_hours total_days day hps = Inr plans
           \<and> map_of r = apply_plans (current_day + day) plans (map_of schedule)"
  using assms
proof (induction subjects available_hours current_day total_days day hps schedule
        rule: days_loop.induct)
  case (1 subjects available_hours current_day total_days day hps schedule)
  show ?case
  proof (cases "day < total_days")
    case False
    with "1.prems" show ?thesis
      by (simp add: days_loop.simps day_plans.simps)
  next
    case True
    from True "1.prems"(1) obtain hps' daily_hours today_plan where
      a: "allocate_day subjects hps available_hours [] = Inr (hps', daily_hours, today_plan)"
      and l: "days_loop subjects available_hours current_day total_days (day + 1) hps'
                (record_day schedule current_day day today_plan) = Inr r"
      by (subst (asm) days_loop.simps) (auto split: sum.splits)
    have d: "\<forall>k\<in>dom (map_of (record_day schedule current_day day today_plan)).
               k \<le> current_day + (day + 1) + 1"
      using "1.prems"(2) by (rule dom_record_day)
    from "1.IH" [OF True a refl refl l d] obtain plans where
      p: "day_plans subjects available_hours total_days (day + 1) hps' = Inr plans"
      and m: "map_of r = apply_plans (current_day + (day + 1)) plans
                (map_of (record_day schedule current_day day today_plan))"
      by blast
    have "day_plans subjects available_hours total_days day hps = Inr (today_plan # plans)"
      using True a p by (subst day_plans.simps) simp
    moreover have "map_of r = apply_plans (current_day + day) (today_plan # plans) (map_of schedule)"
      using m "1.prems"(2) by (simp add: map_of_record_day add.assoc)
    ultimately show ?thesis by blast
  qed
qed

subsection \<open>The returned mapping in terms of the plans of the days\<close>

lemma apply_plans_eq:
  "apply_plans d plans m k =
     (if d \<le> k \<and> k < d + int (length plans) \<and> plans ! nat (k - d) \<noteq> []
      then Some (plans ! nat (k - d))
      else if d + 2 \<le> k \<and> k < d + int (length plans) + 2 \<and> plans ! nat (k - d - 2) \<noteq> []
      then Some (map review_task (plans ! nat (k - d - 2)))
      else m k)"
proof (induction plans arbitrary: d m)
  case Nil
  show ?case by auto
next
  case (Cons p plans)
  have n1: "nat (k - d) = Suc (nat (k - (d + 1)))" if "d + 1 \<le> k"
    using that by linarith
  have n2: "nat (k - d - 2) = Suc (nat (k - (d + 1) - 2))" if "d + 3 \<le> k"
    using that by linarith
  consider "k < d" | "k = d" | "k = d + 1" | "k = d + 2" | "d + 3 \<le> k"
    by linarith
  then show ?case
  proof cases
    case 1
    then show ?thesis by (subst apply_plans.simps, subst Cons.IH) simp
  next
    case 2
    then show ?thesis by (subst apply_plans.simps, subst Cons.IH) simp
  next
    case 3
    then show ?thesis by (subst apply_plans.simps, subst Cons.IH) simp
  next
    case 4
    then show ?thesis by (subst apply_plans.simps, subst Cons.IH) (simp add: n1)
  next
    case 5
    then show ?thesis by (subst apply_plans.simps, subst Cons.IH) (simp add: n1 n2)
  qed
qed

lemma length_day_plans:
  "day_plans subjects available_hours total_days day hps = Inr plans
     \<Longrightarrow> length plans = nat (total_days - day)"
proof (induction subjects available_hours total_days day hps arbitrary: plans
        rule: day_plans.induct)
  case (1 subjects available_hours total_days day hps)
  show ?case
  proof (cases "day < total_days")
    case False
    with "1.prems" show ?thesis by (simp add: day_plans.simps)
  next
    case True
    from True "1.prems" obtain hps' daily_hours today_plan rest where
      a: "allocate_day subjects hps available_hours [] = Inr (hps', daily_hours, today_plan)"
      and r: "day_plans subjects available_hours total_days (day + 1) hps' = Inr rest"
      and p: "plans = today_plan # rest"
      by (subst (asm) day_plans.simps) (auto split: sum.splits)
    from "1.IH" [OF True a refl refl r] have "length rest = nat (total_days - (day + 1))" .
    with True p show ?thesis by simp
  qed
qed

lemma generate_schedule_map:
  assumes "generate_schedule today subjects difficulty available_hours exam_date = Inr schedule"
  shows "\<exists>plans. study_plans today subjects difficulty available_hours exam_date = Inr plans
           \<and> length plans = nat (exam_date - today)
           \<and> map_of schedule = apply_plans today plans Map.empty"
proof -
  define w where "w = (if sum_list (map snd difficulty) = 0 then 1 else sum_list (map snd difficulty))"
  from assms obtain hps where
    h: "hours_per_subject subjects difficulty w (of_int (exam_date - today) * available_hours)
          Map.empty = Inr hps"
    and l: "days_loop subjects available_hours today (exam_date - today) 0 hps [] = Inr schedule"
    by (auto simp: generate_schedule_def Let_def w_def split: sum.splits)
  from days_loop_map [OF l] obtain plans where
    p: "day_plans subjects available_hours (exam_date - today) 0 hps = Inr plans"
    and m: "map_of schedule = apply_plans today plans Map.empty"
    by auto
  have "study_plans today subjects difficulty available_hours exam_date = Inr plans"
    using h p by (simp add: study_plans_def Let_def w_def)
  moreover have "length plans = nat (exam_date - today)"
    using length_day_plans [OF p] by simp
  ultimately show ?thesis using m by blast
qed

section \<open>The budget and the allocation of one day\<close>



lemma hours_per_subject_ok:
  assumes "total_weight \<noteq> 0" and "set subjects \<subseteq> fst ` set difficulty"
  shows "\<exists>hps. hours_per_subject subjects difficulty total_weight total_available_hours acc = Inr hps"
  using assms(2)
proof (induction subjects arbitrary: acc)
  case Nil
  show ?case by simp
next
  case (Cons s rest)
  then have "s \<in> fst ` set difficulty" by simp
  then obtain d where "map_of difficulty s = Some d"
    by (metis domD dom_map_of_conv_image_fst)
  with Cons assms(1) show ?case
    by (simp add: py_truediv_def)
qed

lemma hours_per_subject_no_zerodiv:
  "total_weight \<noteq> 0
     \<Longrightarrow> hours_per_subject subjects difficulty total_weight total_available_hours acc
           \<noteq> Inl ZeroDivisionError"
  by (induction subjects arbitrary: acc)
     (auto simp: py_truediv_def split: option.splits)

lemma hours_per_subject_dom:
  "hours_per_subject subjects difficulty total_weight total_available_hours acc = Inr hps
     \<Longrightarrow> dom hps = dom acc \<union> set subjects"
  by (induction subjects arbitrary: acc)
     (auto simp: py_truediv_def split: option.splits if_splits)



lemma allocate_day_ok:
  "set subjects \<subseteq> dom hps
     \<Longrightarrow> \<exists>hps' daily' plan'. allocate_day subjects hps daily plan = Inr (hps', daily', plan')"
proof (induction subjects arbitrary: hps daily plan)
  case Nil
  show ?case by simp
next
  case (Cons s rest)
  then obtain owed where o: "hps s = Some owed" by auto
  have r1: "\<exists>hps' daily' plan'.
              allocate_day rest (hps(s \<mapsto> v)) d p = Inr (hps', daily', plan')" for v d p
  proof (rule Cons.IH)
    show "set rest \<subseteq> dom (hps(s \<mapsto> v))" using Cons.prems by auto
  qed
  have r2: "\<exists>hps' daily' plan'. allocate_day rest hps d p = Inr (hps', daily', plan')" for d p
  proof (rule Cons.IH)
    show "set rest \<subseteq> dom hps" using Cons.prems by auto
  qed
  show ?case using o r1 r2
    by (simp add: Let_def)
qed

lemma allocate_day_dom:
  "allocate_day subjects hps daily plan = Inr (hps', daily', plan') \<Longrightarrow> dom hps' = dom hps"
proof (induction subjects arbitrary: hps daily plan)
  case Nil
  then show ?case by simp
next
  case (Cons s rest)
  from Cons.prems obtain owed where o: "hps s = Some owed"
    by (auto split: option.splits)
  define a where "a = min 1 (min owed daily)"
  show ?case
  proof (cases "0 < owed \<and> 0 < a")
    case True
    with Cons.prems o have
      "allocate_day rest (hps(s \<mapsto> owed - a)) (daily - a) (plan @ [(s, a)])
         = Inr (hps', daily', plan')"
      by (simp add: a_def Let_def)
    from Cons.IH [OF this] have "dom hps' = dom (hps(s \<mapsto> owed - a))" .
    also have "\<dots> = dom hps" using o by auto
    finally show ?thesis .
  next
    case False
    with Cons.prems o have "allocate_day rest hps daily plan = Inr (hps', daily', plan')"
      by (auto simp: a_def Let_def split: if_splits)
    from Cons.IH [OF this] show ?thesis .
  qed
qed

lemma allocate_day_no_zerodiv:
  "allocate_day subjects hps daily plan \<noteq> Inl ZeroDivisionError"
  by (induction subjects arbitrary: hps daily plan)
     (auto simp: Let_def split: option.splits)

lemma allocate_day_total:
  "allocate_day subjects hps daily plan = Inr (hps', daily', plan')
     \<Longrightarrow> total_hours plan' + daily' = total_hours plan + daily
         \<and> (0 \<le> daily \<longrightarrow> 0 \<le> daily')"
proof (induction subjects arbitrary: hps daily plan)
  case Nil
  then show ?case by simp
next
  case (Cons s rest)
  from Cons.prems obtain owed where o: "hps s = Some owed"
    by (auto split: option.splits)
  define a where "a = min 1 (min owed daily)"
  show ?case
  proof (cases "0 < owed \<and> 0 < a")
    case True
    with Cons.prems o have
      "allocate_day rest (hps(s \<mapsto> owed - a)) (daily - a) (plan @ [(s, a)])
         = Inr (hps', daily', plan')"
      by (simp add: a_def Let_def)
    from Cons.IH [OF this] have
      "total_hours plan' + daily' = total_hours (plan @ [(s, a)]) + (daily - a)"
      and "0 \<le> daily - a \<longrightarrow> 0 \<le> daily'" by simp_all
    moreover have "a \<le> daily" by (simp add: a_def)
    ultimately show ?thesis by (simp add: total_hours_def)
  next
    case False
    with Cons.prems o have "allocate_day rest hps daily plan = Inr (hps', daily', plan')"
      by (auto simp: a_def Let_def split: if_splits)
    from Cons.IH [OF this] show ?thesis .
  qed
qed


lemma allocate_day_tasks:
  "allocate_day subjects hps daily plan = Inr (hps', daily', plan')
     \<Longrightarrow> \<exists>new. plan' = plan @ new
           \<and> (\<forall>t\<in>set new. fst t \<in> set subjects \<and> 0 < snd t \<and> snd t \<le> 1)"
proof (induction subjects arbitrary: hps daily plan)
  case Nil
  then show ?case by simp
next
  case (Cons x rest)
  from Cons.prems obtain ox where ox: "hps x = Some ox"
    by (auto split: option.splits)
  define a where "a = min 1 (min ox daily)"
  show ?case
  proof (cases "0 < ox \<and> 0 < a")
    case True
    with Cons.prems ox have
      "allocate_day rest (hps(x \<mapsto> ox - a)) (daily - a) (plan @ [(x, a)])
         = Inr (hps', daily', plan')"
      by (simp add: a_def Let_def)
    from Cons.IH [OF this] obtain new where
      "plan' = (plan @ [(x, a)]) @ new"
      "\<forall>t\<in>set new. fst t \<in> set rest \<and> 0 < snd t \<and> snd t \<le> 1" by blast
    moreover have "a \<le> 1" by (simp add: a_def)
    ultimately have "plan' = plan @ ((x, a) # new)
      \<and> (\<forall>t\<in>set ((x, a) # new). fst t \<in> set (x # rest) \<and> 0 < snd t \<and> snd t \<le> 1)"
      using True by auto
    then show ?thesis by blast
  next
    case False
    with Cons.prems ox have "allocate_day rest hps daily plan = Inr (hps', daily', plan')"
      by (auto simp: a_def Let_def split: if_splits)
    from Cons.IH [OF this] show ?thesis by auto
  qed
qed

section \<open>Termination with a schedule\<close>

lemma days_loop_ok:
  "set subjects \<subseteq> dom hps
     \<Longrightarrow> \<exists>r. days_loop subjects available_hours current_day total_days day hps schedule = Inr r"
proof (induction subjects available_hours current_day total_days day hps schedule
        rule: days_loop.induct)
  case (1 subjects available_hours current_day total_days day hps schedule)
  show ?case
  proof (cases "day < total_days")
    case False
    then show ?thesis by (simp add: days_loop.simps)
  next
    case True
    from allocate_day_ok [OF "1.prems"] obtain hps' daily' plan' where
      a: "allocate_day subjects hps available_hours [] = Inr (hps', daily', plan')" by blast
    have "set subjects \<subseteq> dom hps'"
      using allocate_day_dom [OF a] "1.prems" by simp
    from "1.IH" [OF True a refl refl this] obtain r where
      "days_loop subjects available_hours current_day total_days (day + 1) hps'
         (record_day schedule current_day day plan') = Inr r" by blast
    with True a show ?thesis by (subst days_loop.simps) simp
  qed
qed

lemma days_loop_no_zerodiv:
  "days_loop subjects available_hours current_day total_days day hps schedule
     \<noteq> Inl ZeroDivisionError"
proof (induction subjects available_hours current_day total_days day hps schedule
        rule: days_loop.induct)
  case (1 subjects available_hours current_day total_days day hps schedule)
  show ?case
  proof (cases "day < total_days")
    case False
    then show ?thesis by (simp add: days_loop.simps)
  next
    case True
    show ?thesis
    proof (cases "allocate_day subjects hps available_hours []")
      case (Inl e)
      with allocate_day_no_zerodiv [of subjects hps available_hours "[]"] True
      show ?thesis by (subst days_loop.simps) auto
    next
      case (Inr x)
      obtain hps' daily' plan' where x: "x = (hps', daily', plan')" by (cases x) auto
      from "1.IH" [OF True Inr [unfolded x] refl refl] True Inr x
      show ?thesis by (subst days_loop.simps) simp
    qed
  qed
qed

lemma generate_schedule_ok:
  assumes "set subjects \<subseteq> fst ` set difficulty"
  shows "\<exists>schedule. generate_schedule today subjects difficulty available_hours exam_date
           = Inr schedule"
proof -
  define w where "w = (if sum_list (map snd difficulty) = 0 then 1 else sum_list (map snd difficulty))"
  have "w \<noteq> 0" by (simp add: w_def)
  from hours_per_subject_ok [OF this assms] obtain hps where
    h: "hours_per_subject subjects difficulty w (of_int (exam_date - today) * available_hours)
          Map.empty = Inr hps" by blast
  have "set subjects \<subseteq> dom hps"
    using hours_per_subject_dom [OF h] by simp
  from days_loop_ok [OF this] obtain r where
    "days_loop subjects available_hours today (exam_date - today) 0 hps [] = Inr r" by blast
  with h show ?thesis
    by (simp add: generate_schedule_def Let_def w_def)
qed

lemma generate_schedule_no_zerodiv:
  "generate_schedule today subjects difficulty available_hours exam_date \<noteq> Inl ZeroDivisionError"
proof -
  define w where "w = (if sum_list (map snd difficulty) = 0 then 1 else sum_list (map snd difficulty))"
  have w: "w \<noteq> 0" by (simp add: w_def)
  show ?thesis
  proof (cases "hours_per_subject subjects difficulty w
                  (of_int (exam_date - today) * available_hours) Map.empty")
    case (Inl e)
    with hours_per_subject_no_zerodiv [OF w, of subjects difficulty
           "of_int (exam_date - today) * available_hours" Map.empty]
    show ?thesis by (auto simp: generate_schedule_def Let_def w_def)
  next
    case (Inr hps)
    with days_loop_no_zerodiv [of subjects available_hours today "exam_date - today" 0 hps "[]"]
    show ?thesis by (simp add: generate_schedule_def Let_def w_def)
  qed
qed

section \<open>The plans of the days\<close>

lemma generate_schedule_lookup:
  assumes "generate_schedule today subjects difficulty available_hours exam_date = Inr schedule"
  shows "\<exists>plans. study_plans today subjects difficulty available_hours exam_date = Inr plans
           \<and> length plans = nat (exam_date - today)
           \<and> (\<forall>k. map_of schedule k =
                 (if today \<le> k \<and> k < today + int (length plans) \<and> plans ! nat (k - today) \<noteq> []
                  then Some (plans ! nat (k - today))
                  else if today + 2 \<le> k \<and> k < today + int (length plans) + 2
                          \<and> plans ! nat (k - today - 2) \<noteq> []
                  then Some (map review_task (plans ! nat (k - today - 2)))
                  else None))"
proof -
  from generate_schedule_map [OF assms] obtain plans where
    p: "study_plans today subjects difficulty available_hours exam_date = Inr plans"
    and l: "length plans = nat (exam_date - today)"
    and m: "map_of schedule = apply_plans today plans Map.empty" by blast
  have "\<forall>k. map_of schedule k =
          (if today \<le> k \<and> k < today + int (length plans) \<and> plans ! nat (k - today) \<noteq> []
           then Some (plans ! nat (k - today))
           else if today + 2 \<le> k \<and> k < today + int (length plans) + 2
                   \<and> plans ! nat (k - today - 2) \<noteq> []
           then Some (map review_task (plans ! nat (k - today - 2)))
           else None)"
    unfolding m by (subst apply_plans_eq) simp
  with p l show ?thesis by blast
qed


lemma day_plans_daily:
  "day_plans subjects available_hours total_days day hps = Inr plans
     \<Longrightarrow> 0 \<le> available_hours
     \<Longrightarrow> \<forall>p\<in>set plans. total_hours p \<le> available_hours
           \<and> (\<forall>t\<in>set p. fst t \<in> set subjects \<and> 0 < snd t \<and> snd t \<le> 1)"
proof (induction subjects available_hours total_days day hps arbitrary: plans
        rule: day_plans.induct)
  case (1 subjects available_hours total_days day hps)
  show ?case
  proof (cases "day < total_days")
    case False
    with "1.prems" show ?thesis by (simp add: day_plans.simps)
  next
    case True
    from True "1.prems"(1) obtain hps' daily_hours today_plan rest where
      a: "allocate_day subjects hps available_hours [] = Inr (hps', daily_hours, today_plan)"
      and r: "day_plans subjects available_hours total_days (day + 1) hps' = Inr rest"
      and p: "plans = today_plan # rest"
      by (subst (asm) day_plans.simps) (auto split: sum.splits)
    from allocate_day_total [OF a] "1.prems"(2)
    have t: "total_hours today_plan \<le> available_hours"
      by (simp add: total_hours_def)
    from allocate_day_tasks [OF a]
    have k: "\<forall>t\<in>set today_plan. fst t \<in> set subjects \<and> 0 < snd t \<and> snd t \<le> 1"
      by simp
    from "1.IH" [OF True a refl refl r "1.prems"(2)] t k p show ?thesis by simp
  qed
qed

text \<open>
  The returned association list is a dictionary: no date occurs twice, so looking a date
  up with \<open>map_of\<close> reads its one entry.
\<close>

lemma keys_dict_set: "map fst (dict_set d k v) = (if k \<in> fst ` set d then map fst d else map fst d @ [k])"
  by (induction d k v rule: dict_set.induct) auto

lemma keys_dict_append:
  "map fst (dict_append d k x) = (if k \<in> fst ` set d then map fst d else map fst d @ [k])"
  by (induction d k x rule: dict_append.induct) auto

lemma distinct_dict_set: "distinct (map fst d) \<Longrightarrow> distinct (map fst (dict_set d k v))"
  by (simp add: keys_dict_set)

lemma distinct_dict_append: "distinct (map fst d) \<Longrightarrow> distinct (map fst (dict_append d k x))"
  by (simp add: keys_dict_append)

lemma distinct_add_reviews:
  "distinct (map fst schedule) \<Longrightarrow> distinct (map fst (add_reviews schedule review_day today_plan))"
  unfolding add_reviews_def
  by (induction today_plan arbitrary: schedule) (simp_all add: distinct_dict_append)

lemma distinct_record_day:
  "distinct (map fst schedule)
     \<Longrightarrow> distinct (map fst (record_day schedule current_day day today_plan))"
  by (simp add: record_day_def distinct_add_reviews distinct_dict_set)

lemma distinct_days_loop:
  "days_loop subjects available_hours current_day total_days day hps schedule = Inr r
     \<Longrightarrow> distinct (map fst schedule) \<Longrightarrow> distinct (map fst r)"
proof (induction subjects available_hours current_day total_days day hps schedule
        rule: days_loop.induct)
  case (1 subjects available_hours current_day total_days day hps schedule)
  show ?case
  proof (cases "day < total_days")
    case False
    with "1.prems" show ?thesis by (simp add: days_loop.simps)
  next
    case True
    from True "1.prems"(1) obtain hps' daily_hours today_plan where
      a: "allocate_day subjects hps available_hours [] = Inr (hps', daily_hours, today_plan)"
      and l: "days_loop subjects available_hours current_day total_days (day + 1) hps'
                (record_day schedule current_day day today_plan) = Inr r"
      by (subst (asm) days_loop.simps) (auto split: sum.splits)
    from "1.prems"(2) have
      "distinct (map fst (record_day schedule current_day day today_plan))"
      by (rule distinct_record_day)
    from "1.IH" [OF True a refl refl l this] show ?thesis .
  qed
qed

lemma distinct_generate_schedule:
  "generate_schedule today subjects difficulty available_hours exam_date = Inr schedule
     \<Longrightarrow> distinct (map fst schedule)"
  by (auto simp: generate_schedule_def Let_def split: sum.splits
           dest!: distinct_days_loop)

text \<open>
  A review stays in the returned schedule when no later plan is stored over its date: the
  date lies past the last planning day, or the plan of that date is empty.
\<close>

lemma reviews_kept:
  assumes "generate_schedule today subjects difficulty available_hours exam_date = Inr schedule"
  shows "\<exists>plans. study_plans today subjects difficulty available_hours exam_date = Inr plans
           \<and> length plans = nat (exam_date - today)
           \<and> (\<forall>i<length plans. plans ! i \<noteq> []
                  \<and> (length plans \<le> i + 2 \<or> plans ! (i + 2) = [])
                  \<longrightarrow> map_of schedule (today + int i + 2) = Some (map review_task (plans ! i)))"
proof -
  from generate_schedule_lookup [OF assms] obtain plans where
    p: "study_plans today subjects difficulty available_hours exam_date = Inr plans"
    and l: "length plans = nat (exam_date - today)"
    and m: "\<forall>k. map_of schedule k =
              (if today \<le> k \<and> k < today + int (length plans) \<and> plans ! nat (k - today) \<noteq> []
               then Some (plans ! nat (k - today))
               else if today + 2 \<le> k \<and> k < today + int (length plans) + 2
                       \<and> plans ! nat (k - today - 2) \<noteq> []
               then Some (map review_task (plans ! nat (k - today - 2)))
               else None)" by blast
  have "map_of schedule (today + int i + 2) = Some (map review_task (plans ! i))"
    if "i < length plans" "plans ! i \<noteq> []" "length plans \<le> i + 2 \<or> plans ! (i + 2) = []" for i
  proof -
    have "nat (today + int i + 2 - today) = i + 2" by simp
    moreover have "nat (today + int i + 2 - today - 2) = i" by simp
    ultimately show ?thesis
      using that by (subst m [rule_format]) auto
  qed
  with p l show ?thesis by blast
qed

text \<open>
  The daily limit in exact arithmetic, where no subtraction rounds: the hours planned for a
  day sum to at most \<open>available_hours\<close>.
\<close>

lemma daily_limit_exact:
  assumes "generate_schedule today subjects difficulty available_hours exam_date = Inr schedule"
    and "0 \<le> available_hours"
  shows "\<exists>plans. study_plans today subjects difficulty available_hours exam_date = Inr plans
           \<and> length plans = nat (exam_date - today)
           \<and> (\<forall>i<length plans.
                  (plans ! i \<noteq> [] \<longrightarrow> map_of schedule (today + int i) = Some (plans ! i))
                  \<and> total_hours (plans ! i) \<le> available_hours
                  \<and> (\<forall>t\<in>set (plans ! i). 0 < snd t \<and> snd t \<le> 1))
         \<and> (\<forall>s owed hps daily_hours today_plan rest.
                hps s = Some owed \<and> 0 < owed \<and> 0 < min 1 (min owed daily_hours)
                  \<longrightarrow> allocate_day (s # rest) hps daily_hours today_plan
                      = allocate_day rest (hps(s \<mapsto> owed - min 1 (min owed daily_hours)))
                          (daily_hours - min 1 (min owed daily_hours))
                          (today_plan @ [(s, min 1 (min owed daily_hours))]))"
proof -
  from generate_schedule_lookup [OF assms(1)] obtain plans where
    p: "study_plans today subjects difficulty available_hours exam_date = Inr plans"
    and l: "length plans = nat (exam_date - today)"
    and m: "\<forall>k. map_of schedule k =
              (if today \<le> k \<and> k < today + int (length plans) \<and> plans ! nat (k - today) \<noteq> []
               then Some (plans ! nat (k - today))
               else if today + 2 \<le> k \<and> k < today + int (length plans) + 2
                       \<and> plans ! nat (k - today - 2) \<noteq> []
               then Some (map review_task (plans ! nat (k - today - 2)))
               else None)" by blast
  have link: "\<forall>i<length plans. plans ! i \<noteq> []
                \<longrightarrow> map_of schedule (today + int i) = Some (plans ! i)"
    by (simp add: m)
  from p obtain hps where
    dp: "day_plans subjects available_hours (exam_date - today) 0 hps = Inr plans"
    by (auto simp: study_plans_def Let_def split: sum.splits)
  from day_plans_daily [OF dp assms(2)]
  have "\<forall>i<length plans. total_hours (plans ! i) \<le> available_hours
          \<and> (\<forall>t\<in>set (plans ! i). 0 < snd t \<and> snd t \<le> 1)"
    by (auto dest: nth_mem)
  with p l link have
    "\<exists>plans. study_plans today subjects difficulty available_hours exam_date = Inr plans
           \<and> length plans = nat (exam_date - today)
           \<and> (\<forall>i<length plans.
                  (plans ! i \<noteq> [] \<longrightarrow> map_of schedule (today + int i) = Some (plans ! i))
                  \<and> total_hours (plans ! i) \<le> available_hours
                  \<and> (\<forall>t\<in>set (plans ! i). 0 < snd t \<and> snd t \<le> 1))"
    by blast
  moreover have
    "\<forall>s owed hps daily_hours today_plan rest.
        hps s = Some owed \<and> 0 < owed \<and> 0 < min 1 (min owed daily_hours)
          \<longrightarrow> allocate_day (s # rest) hps daily_hours today_plan
              = allocate_day rest (hps(s \<mapsto> owed - min 1 (min owed daily_hours)))
                  (daily_hours - min 1 (min owed daily_hours))
                  (today_plan @ [(s, min 1 (min owed daily_hours))])"
    by (simp add: Let_def)
  ultimately show ?thesis by blast
qed

section \<open>The lines in floats and dates: lemmas\<close>

subsection \<open>Rounding\<close>









subsection \<open>The budget and the allocation of one day\<close>

lemma hours_per_subject_f_ok:
  assumes "total_weight \<noteq> 0" and "set subjects \<subseteq> fst ` set difficulty"
  shows "\<exists>hps. hours_per_subject_f subjects difficulty total_weight total_available_hours acc
           = Inr hps"
  using assms(2)
proof (induction subjects arbitrary: acc)
  case Nil
  show ?case by simp
next
  case (Cons s rest)
  then have "s \<in> fst ` set difficulty" by simp
  then obtain d where "map_of difficulty s = Some d"
    by (metis domD dom_map_of_conv_image_fst)
  with Cons assms(1) show ?case
    by (simp add: py_truediv_f_def)
qed

lemma hours_per_subject_f_error:
  "total_weight \<noteq> 0
     \<Longrightarrow> hours_per_subject_f subjects difficulty total_weight total_available_hours acc = Inl e
     \<Longrightarrow> \<exists>s. e = KeyError s"
  by (induction subjects arbitrary: acc)
     (auto simp: py_truediv_f_def split: option.splits)

lemma hours_per_subject_f_dom:
  "hours_per_subject_f subjects difficulty total_weight total_available_hours acc = Inr hps
     \<Longrightarrow> dom hps = dom acc \<union> set subjects"
  by (induction subjects arbitrary: acc)
     (auto simp: py_truediv_f_def split: option.splits if_splits)

lemma allocate_day_f_ok:
  "set subjects \<subseteq> dom hps
     \<Longrightarrow> \<exists>hps' daily' plan'. allocate_day_f subjects hps daily plan = Inr (hps', daily', plan')"
proof (induction subjects arbitrary: hps daily plan)
  case Nil
  show ?case by simp
next
  case (Cons s rest)
  then obtain owed where o: "hps s = Some owed" by auto
  have r1: "\<exists>hps' daily' plan'.
              allocate_day_f rest (hps(s \<mapsto> v)) d p = Inr (hps', daily', plan')" for v d p
  proof (rule Cons.IH)
    show "set rest \<subseteq> dom (hps(s \<mapsto> v))" using Cons.prems by auto
  qed
  have r2: "\<exists>hps' daily' plan'. allocate_day_f rest hps d p = Inr (hps', daily', plan')" for d p
  proof (rule Cons.IH)
    show "set rest \<subseteq> dom hps" using Cons.prems by auto
  qed
  show ?case using o r1 r2
    by (simp add: Let_def)
qed

lemma allocate_day_f_error:
  "allocate_day_f subjects hps daily plan = Inl e \<Longrightarrow> \<exists>s. e = KeyError s"
proof (induction subjects arbitrary: hps daily plan)
  case Nil
  then show ?case by simp
next
  case (Cons s rest)
  show ?case
  proof (cases "hps s")
    case None
    with Cons.prems show ?thesis by auto
  next
    case (Some owed)
    define a where "a = min 1 (min owed daily)"
    show ?thesis
    proof (cases "0 < owed \<and> 0 < a")
      case True
      with Cons.prems Some have
        "allocate_day_f rest (hps(s \<mapsto> binary64 (owed - a))) (binary64 (daily - a))
           (plan @ [(s, a)]) = Inl e"
        by (simp add: a_def Let_def)
      then show ?thesis by (rule Cons.IH)
    next
      case False
      with Cons.prems Some have "allocate_day_f rest hps daily plan = Inl e"
        by (auto simp: a_def Let_def split: if_splits)
      then show ?thesis by (rule Cons.IH)
    qed
  qed
qed

lemma allocate_day_f_dom:
  "allocate_day_f subjects hps daily plan = Inr (hps', daily', plan') \<Longrightarrow> dom hps' = dom hps"
proof (induction subjects arbitrary: hps daily plan)
  case Nil
  then show ?case by simp
next
  case (Cons s rest)
  from Cons.prems obtain owed where o: "hps s = Some owed"
    by (auto split: option.splits)
  define a where "a = min 1 (min owed daily)"
  show ?case
  proof (cases "0 < owed \<and> 0 < a")
    case True
    with Cons.prems o have
      "allocate_day_f rest (hps(s \<mapsto> binary64 (owed - a))) (binary64 (daily - a))
         (plan @ [(s, a)]) = Inr (hps', daily', plan')"
      by (simp add: a_def Let_def)
    from Cons.IH [OF this] have "dom hps' = dom (hps(s \<mapsto> binary64 (owed - a)))" .
    also have "\<dots> = dom hps" using o by auto
    finally show ?thesis .
  next
    case False
    with Cons.prems o have "allocate_day_f rest hps daily plan = Inr (hps', daily', plan')"
      by (auto simp: a_def Let_def split: if_splits)
    from Cons.IH [OF this] show ?thesis .
  qed
qed



subsection \<open>The loop over the days\<close>



lemma py_date_add_Inl: "py_date_add d n = Inl e \<Longrightarrow> e = OverflowError"
  by (simp add: py_date_add_def split: if_splits)

lemma record_day_f_error:
  "record_day_f schedule current_day day today_plan = Inl e \<Longrightarrow> e = OverflowError"
  by (auto simp: record_day_f_def split: sum.splits if_splits dest: py_date_add_Inl)

lemma record_day_f_ok:
  assumes "1 \<le> current_day" and "0 \<le> day" and "current_day + day + 2 \<le> date_max"
  shows "\<exists>schedule'. record_day_f schedule current_day day today_plan = Inr schedule'"
proof -
  have m: "date_max \<le> 999999999" by (simp add: date_max_def)
  have "py_date_add current_day day = Inr (current_day + day)"
    using assms m by (simp add: py_date_add_def)
  moreover have "py_date_add current_day (day + 2) = Inr (current_day + (day + 2))"
    using assms m by (simp add: py_date_add_def)
  ultimately show ?thesis by (simp add: record_day_f_def)
qed

lemma record_day_f_overflow:
  assumes "date_max < current_day + day + 2"
  shows "record_day_f schedule current_day day today_plan = Inl OverflowError"
proof -
  have "py_date_add current_day (day + 2) = Inl OverflowError"
    using assms by (simp add: py_date_add_def)
  then show ?thesis
    by (auto simp: record_day_f_def split: sum.splits dest: py_date_add_Inl)
qed






lemma days_loop_f_ok:
  "set subjects \<subseteq> dom hps \<Longrightarrow> 1 \<le> current_day \<Longrightarrow> 0 \<le> day
     \<Longrightarrow> total_days \<le> day \<or> current_day + total_days + 1 \<le> date_max
     \<Longrightarrow> \<exists>r. days_loop_f subjects available_hours current_day total_days day hps schedule
              = Inr r"
proof (induction subjects available_hours current_day total_days day hps schedule
        rule: days_loop_f.induct)
  case (1 subjects available_hours current_day total_days day hps schedule)
  show ?case
  proof (cases "day < total_days")
    case False
    then show ?thesis by (simp add: days_loop_f.simps)
  next
    case True
    from allocate_day_f_ok [OF "1.prems"(1)] obtain hps' daily' plan' where
      a: "allocate_day_f subjects hps (of_int available_hours) [] = Inr (hps', daily', plan')"
      by blast
    have "current_day + day + 2 \<le> date_max" using True "1.prems"(4) by simp
    from record_day_f_ok [OF "1.prems"(2,3) this] obtain schedule' where
      rd: "record_day_f schedule current_day day plan' = Inr schedule'" by blast
    have s: "set subjects \<subseteq> dom hps'"
      using allocate_day_f_dom [OF a] "1.prems"(1) by simp
    have d: "0 \<le> day + 1" using "1.prems"(3) by simp
    have c: "total_days \<le> day + 1 \<or> current_day + total_days + 1 \<le> date_max"
      using True "1.prems"(4) by simp
    from "1.IH" [OF True a refl refl rd s "1.prems"(2) d c] obtain r where
      "days_loop_f subjects available_hours current_day total_days (day + 1) hps' schedule'
         = Inr r" by blast
    with True a rd show ?thesis by (subst days_loop_f.simps) simp
  qed
qed

lemma days_loop_f_error:
  "days_loop_f subjects available_hours current_day total_days day hps schedule = Inl e
     \<Longrightarrow> e \<noteq> ZeroDivisionError"
proof (induction subjects available_hours current_day total_days day hps schedule
        rule: days_loop_f.induct)
  case (1 subjects available_hours current_day total_days day hps schedule)
  show ?case
  proof (cases "day < total_days")
    case False
    with "1.prems" show ?thesis by (simp add: days_loop_f.simps)
  next
    case True
    show ?thesis
    proof (cases "allocate_day_f subjects hps (of_int available_hours) []")
      case (Inl e')
      with True "1.prems" have "e = e'" by (subst (asm) days_loop_f.simps) simp
      with allocate_day_f_error [OF Inl] show ?thesis by auto
    next
      case (Inr x)
      obtain hps' daily' plan' where x: "x = (hps', daily', plan')" by (cases x) auto
      show ?thesis
      proof (cases "record_day_f schedule current_day day plan'")
        case (Inl e')
        with True "1.prems" Inr x have "e = e'" by (subst (asm) days_loop_f.simps) simp
        with record_day_f_error [OF Inl] show ?thesis by simp
      next
        case rd: (Inr schedule')
        from True "1.prems" Inr x rd have
          "days_loop_f subjects available_hours current_day total_days (day + 1) hps' schedule'
             = Inl e"
          by (subst (asm) days_loop_f.simps) simp
        from "1.IH" [OF True Inr [unfolded x] refl refl rd this] show ?thesis .
      qed
    qed
  qed
qed

lemma days_loop_f_overflow:
  "set subjects \<subseteq> dom hps \<Longrightarrow> day < total_days \<Longrightarrow> date_max < current_day + total_days + 1
     \<Longrightarrow> days_loop_f subjects available_hours current_day total_days day hps schedule
           = Inl OverflowError"
proof (induction subjects available_hours current_day total_days day hps schedule
        rule: days_loop_f.induct)
  case (1 subjects available_hours current_day total_days day hps schedule)
  from allocate_day_f_ok [OF "1.prems"(1)] obtain hps' daily' plan' where
    a: "allocate_day_f subjects hps (of_int available_hours) [] = Inr (hps', daily', plan')"
    by blast
  show ?case
  proof (cases "record_day_f schedule current_day day plan'")
    case (Inl e)
    with record_day_f_error [OF Inl] "1.prems"(2) a show ?thesis
      by (subst days_loop_f.simps) simp
  next
    case rd: (Inr schedule')
    have "\<not> date_max < current_day + day + 2"
      using record_day_f_overflow [of current_day day schedule plan'] rd by auto
    with "1.prems"(3) have n: "day + 1 < total_days" by simp
    have s: "set subjects \<subseteq> dom hps'"
      using allocate_day_f_dom [OF a] "1.prems"(1) by simp
    from "1.IH" [OF "1.prems"(2) a refl refl rd s n "1.prems"(3)]
    have "days_loop_f subjects available_hours current_day total_days (day + 1) hps' schedule'
            = Inl OverflowError" .
    with "1.prems"(2) a rd show ?thesis by (subst days_loop_f.simps) simp
  qed
qed

subsection \<open>The whole function, and one run\<close>



lemma generate_schedule_f_ok:
  assumes "set subjects \<subseteq> fst ` set difficulty" and "1 \<le> today"
    and "exam_date \<le> today \<or> exam_date < date_max"
  shows "\<exists>schedule. generate_schedule_f today subjects difficulty available_hours exam_date
           = Inr schedule"
proof -
  define w where "w = (if sum_list (map snd difficulty) = 0 then 1 else sum_list (map snd difficulty))"
  have "w \<noteq> 0" by (simp add: w_def)
  from hours_per_subject_f_ok [OF this assms(1)] obtain hps where
    h: "hours_per_subject_f subjects difficulty w ((exam_date - today) * available_hours)
          Map.empty = Inr hps" by blast
  have s: "set subjects \<subseteq> dom hps"
    using hours_per_subject_f_dom [OF h] by simp
  have "exam_date - today \<le> 0 \<or> today + (exam_date - today) + 1 \<le> date_max"
    using assms(3) by auto
  from days_loop_f_ok [OF s assms(2) order_refl this] obtain r where
    "days_loop_f subjects available_hours today (exam_date - today) 0 hps [] = Inr r" by blast
  with h show ?thesis
    by (simp add: generate_schedule_f_def Let_def w_def)
qed

lemma generate_schedule_f_no_zerodiv:
  "generate_schedule_f today subjects difficulty available_hours exam_date
     \<noteq> Inl ZeroDivisionError"
proof -
  define w where "w = (if sum_list (map snd difficulty) = 0 then 1 else sum_list (map snd difficulty))"
  have w: "w \<noteq> 0" by (simp add: w_def)
  show ?thesis
  proof (cases "hours_per_subject_f subjects difficulty w
                  ((exam_date - today) * available_hours) Map.empty")
    case (Inl e)
    with hours_per_subject_f_error [OF w Inl]
    show ?thesis by (auto simp: generate_schedule_f_def Let_def w_def)
  next
    case (Inr hps)
    show ?thesis
    proof
      assume "generate_schedule_f today subjects difficulty available_hours exam_date
                = Inl ZeroDivisionError"
      with Inr have
        "days_loop_f subjects available_hours today (exam_date - today) 0 hps []
           = Inl ZeroDivisionError"
        by (simp add: generate_schedule_f_def Let_def w_def)
      from days_loop_f_error [OF this] show False by simp
    qed
  qed
qed

lemma generate_schedule_f_overflow:
  assumes "set subjects \<subseteq> fst ` set difficulty" and "today < exam_date"
    and "date_max \<le> exam_date"
  shows "generate_schedule_f today subjects difficulty available_hours exam_date
           = Inl OverflowError"
proof -
  define w where "w = (if sum_list (map snd difficulty) = 0 then 1 else sum_list (map snd difficulty))"
  have "w \<noteq> 0" by (simp add: w_def)
  from hours_per_subject_f_ok [OF this assms(1)] obtain hps where
    h: "hours_per_subject_f subjects difficulty w ((exam_date - today) * available_hours)
          Map.empty = Inr hps" by blast
  have s: "set subjects \<subseteq> dom hps"
    using hours_per_subject_f_dom [OF h] by simp
  have d: "0 < exam_date - today" using assms(2) by simp
  have m: "date_max < today + (exam_date - today) + 1" using assms(3) by simp
  from days_loop_f_overflow [OF s d m] h show ?thesis
    by (simp add: generate_schedule_f_def Let_def w_def)
qed









section \<open>The claims\<close>

text \<open>
  Claim C1. Every study task of \<open>h\<close> hours for subject \<open>s\<close> on day \<open>d\<close> has its review task
  \<open>("Review " + s, round(h / 2, 1))\<close> in the returned list of date \<open>today + d + 2\<close>.

  The code does not do this. With one subject of difficulty 1, one hour a day and the exam in
  three days, day 0 plans \<open>(Math, 1)\<close> and appends its review to date 2; on day 2 line 59
  assigns the plan of that day to date 2 and the review is gone. The run below is the
  whole returned dictionary: date 2 holds the study task only. (Lemma \<open>reviews_kept\<close> above
  gives the reviews that do stay.)
\<close>

theorem review_overwritten:
  "generate_schedule 0 [''Math''] [(''Math'', 1)] 1 3
     = Inr [(0, [(''Math'', 1)]), (2, [(''Math'', 1)]), (1, [(''Math'', 1)]),
            (3, [(''Review Math'', 1 / 2)]), (4, [(''Review Math'', 1 / 2)])]
   \<and> map_of ([(0, [(''Math'', 1)]), (2, [(''Math'', 1)]), (1, [(''Math'', 1)]),
              (3, [(''Review Math'', 1 / 2)]), (4, [(''Review Math'', 1 / 2)])] :: schedule) 0
       = Some [(''Math'', 1)]
   \<and> map_of ([(0, [(''Math'', 1)]), (2, [(''Math'', 1)]), (1, [(''Math'', 1)]),
              (3, [(''Review Math'', 1 / 2)]), (4, [(''Review Math'', 1 / 2)])] :: schedule) (0 + 0 + 2)
       = Some [(''Math'', 1)]
   \<and> review_task (''Math'', 1) = (''Review Math'', 1 / 2)
   \<and> review_task (''Math'', 1) \<notin> set [(''Math'', 1)]"
  by (simp add: generate_schedule_def py_truediv_def py_round1_def days_loop.simps
        record_day_def add_reviews_def review_task_def)

text \<open>
  Claim C2. The scenario of the specification: subjects Math and Science with difficulties 4
  and 2, three hours a day, exam in two days. The budgets are 4 and 2 hours, and the returned
  dictionary is the one below, in insertion order (dates 0, 2, 1, 3 from today): one hour
  each on both days, and the two half-hour reviews on the two days after.
\<close>

theorem scenario_math_science:
  "(\<exists>hps. hours_per_subject [''Math'', ''Science''] [(''Math'', 4), (''Science'', 2)] 6 (2 * 3)
            Map.empty = Inr hps
          \<and> hps ''Math'' = Some 4 \<and> hps ''Science'' = Some 2)
   \<and> generate_schedule today [''Math'', ''Science''] [(''Math'', 4), (''Science'', 2)] 3 (today + 2)
     = Inr [(today, [(''Math'', 1), (''Science'', 1)]),
            (today + 2, [(''Review Math'', 1 / 2), (''Review Science'', 1 / 2)]),
            (today + 1, [(''Math'', 1), (''Science'', 1)]),
            (today + 3, [(''Review Math'', 1 / 2), (''Review Science'', 1 / 2)])]"
  by (simp add: generate_schedule_def py_truediv_def py_round1_def days_loop.simps
        record_day_def add_reviews_def review_task_def)






text \<open>
  Claim C5. When the exam is today or earlier, the loop of the days does not run and the
  schedule returned is empty, for every input in which each subject has a difficulty (a
  subject without one raises \<^verbatim>\<open>KeyError\<close> in line 42 before the loop).
\<close>

theorem past_exam_empty:
  assumes "exam_date \<le> today" and "set subjects \<subseteq> fst ` set difficulty"
  shows "generate_schedule today subjects difficulty available_hours exam_date = Inr []"
proof -
  define w where "w = (if sum_list (map snd difficulty) = 0 then 1 else sum_list (map snd difficulty))"
  have "w \<noteq> 0" by (simp add: w_def)
  from hours_per_subject_ok [OF this assms(2)] obtain hps where
    h: "hours_per_subject subjects difficulty w (of_int (exam_date - today) * available_hours)
          Map.empty = Inr hps" by blast
  have "days_loop subjects available_hours today (exam_date - today) 0 hps [] = Inr []"
    using assms(1) by (subst days_loop.simps) simp
  with h show ?thesis
    by (simp add: generate_schedule_def Let_def w_def)
qed

theorem past_exam_empty_witness:
  "(5::int) \<le> 7 \<and> set [''Math''] \<subseteq> fst ` set [(''Math'', 3::int)]
   \<and> generate_schedule 7 [''Math''] [(''Math'', 3)] 2 5 = Inr []"
  using past_exam_empty [of 5 7 "[''Math'']" "[(''Math'', 3)]" 2] by simp

text \<open>
  Claim C6. \<^verbatim>\<open>generate_schedule\<close> returns a schedule and never raises, for every input that
  meets the preconditions.

  As stated this fails at the last date of the calendar. Line 61 computes the review date
  \<open>today + day + 2\<close> on every day of the loop, and on the last day this is the day after the
  exam date: for an exam on 9999-12-31 (ordinal 3652059) the addition raises
  \<^verbatim>\<open>OverflowError\<close>.
\<close>

theorem overflow_at_last_date:
  "generate_schedule_f 739924 [''Math''] [(''Math'', 3)] 3 3652059 = Inl OverflowError"
proof -
  have "set [''Math''] \<subseteq> fst ` set [(''Math'', 3 :: int)]" by simp
  moreover have "(739924 :: int) < 3652059" by simp
  moreover have "date_max \<le> 3652059" by (simp add: date_max_def)
  ultimately show ?thesis by (rule generate_schedule_f_overflow)
qed

text \<open>
  Claim C6, amended. \<^verbatim>\<open>generate_schedule\<close> never raises \<^verbatim>\<open>ZeroDivisionError\<close>, whatever the
  input: a zero sum of difficulties is replaced by 1 in lines 39-40. It returns a schedule
  for every input that meets the preconditions (a rating from 1 to 5 for every subject, 1 to
  10 hours a day) and whose exam date is not after today or is before 9999-12-31.
\<close>

theorem never_fails_before_last_date:
  "generate_schedule_f today subjects difficulty available_hours exam_date
     \<noteq> Inl ZeroDivisionError
   \<and> (set subjects \<subseteq> fst ` set difficulty
        \<and> (\<forall>d\<in>snd ` set difficulty. 1 \<le> d \<and> d \<le> 5)
        \<and> 1 \<le> available_hours \<and> available_hours \<le> 10
        \<and> 1 \<le> today \<and> (exam_date \<le> today \<or> exam_date < date_max)
        \<longrightarrow> (\<exists>schedule. generate_schedule_f today subjects difficulty available_hours exam_date
               = Inr schedule))"
proof (intro conjI impI)
  show "generate_schedule_f today subjects difficulty available_hours exam_date
          \<noteq> Inl ZeroDivisionError"
    by (rule generate_schedule_f_no_zerodiv)
next
  assume a: "set subjects \<subseteq> fst ` set difficulty
        \<and> (\<forall>d\<in>snd ` set difficulty. 1 \<le> d \<and> d \<le> 5)
        \<and> 1 \<le> available_hours \<and> available_hours \<le> 10
        \<and> 1 \<le> today \<and> (exam_date \<le> today \<or> exam_date < date_max)"
  then have "set subjects \<subseteq> fst ` set difficulty" and "1 \<le> today"
    and "exam_date \<le> today \<or> exam_date < date_max"
    by simp_all
  then show "\<exists>schedule. generate_schedule_f today subjects difficulty available_hours exam_date
               = Inr schedule"
    by (rule generate_schedule_f_ok)
qed

theorem never_fails_before_last_date_witness:
  "sum_list (map snd ([] :: (string \<times> int) list)) = 0
   \<and> generate_schedule_f 739924 [] [] 3 739926 \<noteq> Inl ZeroDivisionError
   \<and> (\<exists>schedule. generate_schedule_f 739924 [] [] 3 739926 = Inr schedule)
   \<and> generate_schedule_f 739924 [''Math'', ''Science''] [(''Math'', 4), (''Science'', 2)] 3 739926
       \<noteq> Inl ZeroDivisionError
   \<and> (\<exists>schedule. generate_schedule_f 739924 [''Math'', ''Science'']
                     [(''Math'', 4), (''Science'', 2)] 3 739926 = Inr schedule)"
  using never_fails_before_last_date [of 739924 "[]" "[]" 3 739926]
        never_fails_before_last_date
          [of 739924 "[''Math'', ''Science'']" "[(''Math'', 4), (''Science'', 2)]" 3 739926]
  by (simp add: date_max_def)

text \<open>
  Claim C7. With the exam after today, every date of the returned schedule is today or
  later. The study tasks are the plans of the days \<open>0 \<le> i < total_days\<close>, stored under
  \<open>today + i\<close>; a date after \<open>today + total_days - 1\<close> holds nothing but the reviews of the
  plan of two days before.
\<close>

theorem dates_not_before_today:
  assumes "generate_schedule today subjects difficulty available_hours exam_date = Inr schedule"
    and "today < exam_date"
  shows "\<exists>plans. study_plans today subjects difficulty available_hours exam_date = Inr plans
           \<and> length plans = nat (exam_date - today)
           \<and> (\<forall>i<length plans. plans ! i \<noteq> []
                  \<longrightarrow> map_of schedule (today + int i) = Some (plans ! i))
           \<and> (\<forall>k tasks. map_of schedule k = Some tasks
                  \<longrightarrow> today \<le> k
                      \<and> (today + (exam_date - today) - 1 < k
                           \<longrightarrow> tasks = map review_task (plans ! nat (k - today - 2))))"
proof -
  from generate_schedule_lookup [OF assms(1)] obtain plans where
    p: "study_plans today subjects difficulty available_hours exam_date = Inr plans"
    and l: "length plans = nat (exam_date - today)"
    and m: "\<forall>k. map_of schedule k =
              (if today \<le> k \<and> k < today + int (length plans) \<and> plans ! nat (k - today) \<noteq> []
               then Some (plans ! nat (k - today))
               else if today + 2 \<le> k \<and> k < today + int (length plans) + 2
                       \<and> plans ! nat (k - today - 2) \<noteq> []
               then Some (map review_task (plans ! nat (k - today - 2)))
               else None)" by blast
  have link: "\<forall>i<length plans. plans ! i \<noteq> []
                \<longrightarrow> map_of schedule (today + int i) = Some (plans ! i)"
    by (simp add: m)
  have n: "int (length plans) = exam_date - today" using l assms(2) by simp
  have "today \<le> k \<and> (today + (exam_date - today) - 1 < k
           \<longrightarrow> tasks = map review_task (plans ! nat (k - today - 2)))"
    if "map_of schedule k = Some tasks" for k tasks
    using that m [rule_format, of k] n by (auto split: if_splits)
  with p l link show ?thesis by blast
qed

theorem dates_not_before_today_witness:
  "generate_schedule 0 [''Math'', ''Science''] [(''Math'', 4), (''Science'', 2)] 3 2
     = Inr [(0, [(''Math'', 1), (''Science'', 1)]),
            (2, [(''Review Math'', 1 / 2), (''Review Science'', 1 / 2)]),
            (1, [(''Math'', 1), (''Science'', 1)]),
            (3, [(''Review Math'', 1 / 2), (''Review Science'', 1 / 2)])]
   \<and> (0 :: int) < 2 \<and> (0 :: int) \<le> 3 \<and> (0 :: int) + (2 - 0) - 1 < 3
   \<and> map_of ([(0, [(''Math'', 1), (''Science'', 1)]),
            (2, [(''Review Math'', 1 / 2), (''Review Science'', 1 / 2)]),
            (1, [(''Math'', 1), (''Science'', 1)]),
            (3, [(''Review Math'', 1 / 2), (''Review Science'', 1 / 2)])] :: schedule) 3
       = Some (map review_task ([[(''Math'', 1), (''Science'', 1)], [(''Math'', 1), (''Science'', 1)]] ! nat (3 - 0 - 2)))"
proof -
  have g: "generate_schedule 0 [''Math'', ''Science''] [(''Math'', 4), (''Science'', 2)] 3 2
          = Inr [(0, [(''Math'', 1), (''Science'', 1)]),
                 (2, [(''Review Math'', 1 / 2), (''Review Science'', 1 / 2)]),
                 (1, [(''Math'', 1), (''Science'', 1)]),
                 (3, [(''Review Math'', 1 / 2), (''Review Science'', 1 / 2)])]"
    by (simp add: generate_schedule_def py_truediv_def py_round1_def days_loop.simps
          record_day_def add_reviews_def review_task_def)
  have p: "study_plans 0 [''Math'', ''Science''] [(''Math'', 4), (''Science'', 2)] 3 2
          = Inr [[(''Math'', 1), (''Science'', 1)], [(''Math'', 1), (''Science'', 1)]]"
    by (simp add: study_plans_def py_truediv_def py_round1_def day_plans.simps)
  have h2: "(0 :: int) < 2" by simp
  have m: "map_of ([(0, [(''Math'', 1), (''Science'', 1)]),
            (2, [(''Review Math'', 1 / 2), (''Review Science'', 1 / 2)]),
            (1, [(''Math'', 1), (''Science'', 1)]),
            (3, [(''Review Math'', 1 / 2), (''Review Science'', 1 / 2)])] :: schedule) 3
         = Some [(''Review Math'', 1 / 2), (''Review Science'', 1 / 2)]"
    by simp
  from dates_not_before_today [OF g h2] p
  have "\<forall>k tasks. map_of ([(0, [(''Math'', 1), (''Science'', 1)]),
            (2, [(''Review Math'', 1 / 2), (''Review Science'', 1 / 2)]),
            (1, [(''Math'', 1), (''Science'', 1)]),
            (3, [(''Review Math'', 1 / 2), (''Review Science'', 1 / 2)])] :: schedule) k = Some tasks
          \<longrightarrow> 0 \<le> k
              \<and> (0 + (2 - 0) - 1 < k
                   \<longrightarrow> tasks = map review_task ([[(''Math'', 1), (''Science'', 1)], [(''Math'', 1), (''Science'', 1)]] ! nat (k - 0 - 2)))"
    by auto
  from this [rule_format, OF m] m
  have "map_of ([(0, [(''Math'', 1), (''Science'', 1)]),
            (2, [(''Review Math'', 1 / 2), (''Review Science'', 1 / 2)]),
            (1, [(''Math'', 1), (''Science'', 1)]),
            (3, [(''Review Math'', 1 / 2), (''Review Science'', 1 / 2)])] :: schedule) 3
       = Some (map review_task ([[(''Math'', 1), (''Science'', 1)], [(''Math'', 1), (''Science'', 1)]] ! nat (3 - 0 - 2)))"
    by simp
  with g h2 show ?thesis by simp
qed

text \<open>
  Claim C9. \<^verbatim>\<open>save_favorite\<close> leaves the list as it is when an equal record is in it, and
  appends the record at the end otherwise; saving the same record again changes nothing,
  and the old list is always the front part of the new one, so no element is removed or
  moved.
\<close>

theorem save_favorite_idempotent:
  "(r \<in> set favorites \<longrightarrow> save_favorite favorites r = favorites)
   \<and> (r \<notin> set favorites \<longrightarrow> save_favorite favorites r = favorites @ [r])
   \<and> save_favorite (save_favorite favorites r) r = save_favorite favorites r
   \<and> take (length favorites) (save_favorite favorites r) = favorites"
  by (simp add: save_favorite_def)

theorem save_favorite_idempotent_witness:
  "save_favorite [\<lparr>rtype = ''Article'', subject = ''Math'', title = ''Introduction to Math'',
                    link = ''https://en.wikipedia.org/wiki/Math''\<rparr>]
     \<lparr>rtype = ''Article'', subject = ''Math'', title = ''Introduction to Math'',
      link = ''https://en.wikipedia.org/wiki/Math''\<rparr>
   = [\<lparr>rtype = ''Article'', subject = ''Math'', title = ''Introduction to Math'',
        link = ''https://en.wikipedia.org/wiki/Math''\<rparr>]
   \<and> save_favorite []
        \<lparr>rtype = ''Article'', subject = ''Math'', title = ''Introduction to Math'',
         link = ''https://en.wikipedia.org/wiki/Math''\<rparr>
   = [\<lparr>rtype = ''Article'', subject = ''Math'', title = ''Introduction to Math'',
        link = ''https://en.wikipedia.org/wiki/Math''\<rparr>]"
  using save_favorite_idempotent
          [of "\<lparr>rtype = ''Article'', subject = ''Math'', title = ''Introduction to Math'',
                 link = ''https://en.wikipedia.org/wiki/Math''\<rparr>"
              "[\<lparr>rtype = ''Article'', subject = ''Math'', title = ''Introduction to Math'',
                  link = ''https://en.wikipedia.org/wiki/Math''\<rparr>]"]
        save_favorite_idempotent
          [of "\<lparr>rtype = ''Article'', subject = ''Math'', title = ''Introduction to Math'',
                 link = ''https://en.wikipedia.org/wiki/Math''\<rparr>" "[]"]
  by simp

text \<open>
  Claim C10. With the exam after today, every date of the returned schedule is at most
  \<open>today + total_days + 1\<close>, two days after the last planning day.
\<close>

theorem dates_at_most_two_past:
  assumes "generate_schedule today subjects difficulty available_hours exam_date = Inr schedule"
    and "today < exam_date"
  shows "\<forall>k\<in>fst ` set schedule. k \<le> today + (exam_date - today) + 1"
proof
  fix k
  assume "k \<in> fst ` set schedule"
  then obtain tasks where t: "map_of schedule k = Some tasks"
    by (metis domD dom_map_of_conv_image_fst)
  from generate_schedule_lookup [OF assms(1)] obtain plans where
    l: "length plans = nat (exam_date - today)"
    and m: "\<forall>k. map_of schedule k =
              (if today \<le> k \<and> k < today + int (length plans) \<and> plans ! nat (k - today) \<noteq> []
               then Some (plans ! nat (k - today))
               else if today + 2 \<le> k \<and> k < today + int (length plans) + 2
                       \<and> plans ! nat (k - today - 2) \<noteq> []
               then Some (map review_task (plans ! nat (k - today - 2)))
               else None)" by blast
  have n: "int (length plans) = exam_date - today" using l assms(2) by simp
  from t m [rule_format, of k] n show "k \<le> today + (exam_date - today) + 1"
    by (auto split: if_splits)
qed

theorem dates_at_most_two_past_witness:
  "generate_schedule 0 [''Math'', ''Science''] [(''Math'', 4), (''Science'', 2)] 3 2
     = Inr [(0, [(''Math'', 1), (''Science'', 1)]),
            (2, [(''Review Math'', 1 / 2), (''Review Science'', 1 / 2)]),
            (1, [(''Math'', 1), (''Science'', 1)]),
            (3, [(''Review Math'', 1 / 2), (''Review Science'', 1 / 2)])]
   \<and> (0 :: int) < 2
   \<and> (3 :: int) \<in> fst ` set ([(0, [(''Math'', 1), (''Science'', 1)]),
            (2, [(''Review Math'', 1 / 2), (''Review Science'', 1 / 2)]),
            (1, [(''Math'', 1), (''Science'', 1)]),
            (3, [(''Review Math'', 1 / 2), (''Review Science'', 1 / 2)])] :: schedule)
   \<and> (3 :: int) \<le> 0 + (2 - 0) + 1"
proof -
  have g: "generate_schedule 0 [''Math'', ''Science''] [(''Math'', 4), (''Science'', 2)] 3 2
          = Inr [(0, [(''Math'', 1), (''Science'', 1)]),
                 (2, [(''Review Math'', 1 / 2), (''Review Science'', 1 / 2)]),
                 (1, [(''Math'', 1), (''Science'', 1)]),
                 (3, [(''Review Math'', 1 / 2), (''Review Science'', 1 / 2)])]"
    by (simp add: generate_schedule_def py_truediv_def py_round1_def days_loop.simps
          record_day_def add_reviews_def review_task_def)
  have h2: "(0 :: int) < 2" by simp
  have k: "(3 :: int) \<in> fst ` set ([(0, [(''Math'', 1), (''Science'', 1)]),
            (2, [(''Review Math'', 1 / 2), (''Review Science'', 1 / 2)]),
            (1, [(''Math'', 1), (''Science'', 1)]),
            (3, [(''Review Math'', 1 / 2), (''Review Science'', 1 / 2)])] :: schedule)"
    by simp
  from dates_at_most_two_past [OF g h2] k
  have "(3 :: int) \<le> 0 + (2 - 0) + 1" by (rule bspec)
  with g h2 k show ?thesis by blast
qed

end
